theory Spec2Isabelle
  imports Main "HOL-Library.Word"
begin

section \<open>JavaScript string primitives used by the assessment engine\<close>

text \<open>
  For the normalizer, the trust classifier and the engine a JavaScript string is modelled
  as an Isabelle \<open>string\<close>: a list of characters whose codes (\<open>of_char\<close>) range over
  0..255, read as the Latin-1 block of UTF-16 code units. \<open>trim\<close> and \<open>toLowerCase\<close>
  are written out on that range. \<open>simpleHash\<close> is modelled on lists of 16-bit code units,
  which is every JavaScript string; \<open>codeUnits\<close> takes a string of the Latin-1 range
  there.
\<close>

definition isWhiteSpace :: "char \<Rightarrow> bool" where
  \<comment> \<open>the white space and line terminators \<open>String.prototype.trim\<close> removes: TAB, LF, VT, FF,
     CR, SP and NBSP\<close>
  "isWhiteSpace c =
     (let n = (of_char c :: nat)
      in n = 9 \<or> n = 10 \<or> n = 11 \<or> n = 12 \<or> n = 13 \<or> n = 32 \<or> n = 160)"

definition trim :: "string \<Rightarrow> string" where
  "trim s = rev (dropWhile isWhiteSpace (rev (dropWhile isWhiteSpace s)))"

definition toLowerChar :: "char \<Rightarrow> char" where
  \<comment> \<open>A..Z and the accented capitals U+00C0..U+00DE (the multiplication sign U+00D7 apart)
     move up by 32; every other code is unchanged\<close>
  "toLowerChar c =
     (let n = (of_char c :: nat)
      in if (65 \<le> n \<and> n \<le> 90) \<or> (192 \<le> n \<and> n \<le> 222 \<and> n \<noteq> 215)
         then char_of (n + 32) else c)"

definition toLowerCase :: "string \<Rightarrow> string" where
  "toLowerCase s = map toLowerChar s"

definition startsWith :: "string \<Rightarrow> string \<Rightarrow> bool" where
  "startsWith s p = (take (length p) s = p)"

definition endsWith :: "string \<Rightarrow> string \<Rightarrow> bool" where
  "endsWith s p = (length p \<le> length s \<and> drop (length s - length p) s = p)"

definition splitFirst :: "char \<Rightarrow> string \<Rightarrow> string" where
  \<comment> \<open>\<open>s.split(sep)[0]\<close>: the part of \<open>s\<close> before the first separator, all of \<open>s\<close> when
     there is none\<close>
  "splitFirst sep s = takeWhile (\<lambda>c. c \<noteq> sep) s"

definition stripWww :: "string \<Rightarrow> string" where
  \<comment> \<open>\<open>s.replace(/^www\./, '')\<close>\<close>
  "stripWww s = (if startsWith s ''www.'' then drop 4 s else s)"

definition stripSchemeWww :: "string \<Rightarrow> string" where
  \<comment> \<open>\<open>s.replace(/^(https?:\/\/)?(www\.)?/, '')\<close>: the pattern always matches at index 0;
     each optional group is greedy, so the scheme is removed when it is there, and then
     one \<open>www.\<close> when it follows\<close>
  "stripSchemeWww s =
     stripWww (if startsWith s ''https://'' then drop 8 s
               else if startsWith s ''http://'' then drop 7 s
               else s)"

fun toDecimal :: "nat \<Rightarrow> string" where
  "toDecimal n =
     (if n < 10 then [char_of (48 + n)]
      else toDecimal (n div 10) @ [char_of (48 + n mod 10)])"

definition numberToString :: "int \<Rightarrow> string" where
  \<comment> \<open>the decimal text a template literal gives an integer-valued number\<close>
  "numberToString i = (if i < 0 then ''-'' @ toDecimal (nat (- i)) else toDecimal (nat i))"

section \<open>Number primitives\<close>

definition toInt32 :: "int \<Rightarrow> int" where
  \<comment> \<open>ECMAScript ToInt32 on an integer: reduce modulo \<open>2^32\<close> into \<open>[-2^31, 2^31)\<close>\<close>
  "toInt32 x = (x + 2147483648) mod 4294967296 - 2147483648"

definition shiftLeft :: "int \<Rightarrow> nat \<Rightarrow> int" where
  \<comment> \<open>\<open>a << k\<close>: the left operand goes through ToInt32, the shift count is taken modulo 32,
     the result is an int32 again\<close>
  "shiftLeft a k = toInt32 (toInt32 a * 2 ^ (k mod 32))"

definition bitAnd :: "int \<Rightarrow> int \<Rightarrow> int" where
  \<comment> \<open>\<open>a & b\<close>: both operands go through ToInt32\<close>
  "bitAnd a b = and (toInt32 a) (toInt32 b)"

definition rem :: "int \<Rightarrow> int \<Rightarrow> int" where
  \<comment> \<open>\<open>a % b\<close> on integers: the remainder has the sign of the dividend\<close>
  "rem a b = sgn a * (\<bar>a\<bar> mod \<bar>b\<bar>)"

section \<open>The assessment engine\<close>

record SecurityHeader =
  name :: string
  description :: string
  present :: bool
  recommendation :: string

datatype CertificateStatus = Valid | Unknown | Expired

datatype RiskLevel = Low | Medium | High

record SslFinding =
  available :: bool
  certificateStatus :: CertificateStatus
  expiryDays :: "int option"

record DnsFinding =
  reachable :: bool
  responseTime :: string

record SecurityReport =
  domain :: string
  timestamp :: string
  ssl :: SslFinding
  headers :: "SecurityHeader list"
  dns :: DnsFinding
  overallRisk :: RiskLevel
  riskScore :: int
  recommendations :: "string list"

subsection \<open>simpleHash\<close>

text \<open>
  \<open>simpleHash\<close> reads its argument through \<open>charCodeAt\<close> only, so here a string is the
  list of its UTF-16 code units, each a 16-bit word, and \<open>uint\<close> is the number
  \<open>charCodeAt\<close> returns. Every JavaScript string is such a list, surrogate pairs included.
\<close>

type_synonym codeUnit = "16 word"

definition codeUnits :: "string \<Rightarrow> codeUnit list" where
  \<comment> \<open>the code units of a string of the Latin-1 range: one unit for each character, with
     the character's code\<close>
  "codeUnits s = map (\<lambda>c. of_nat (of_char c)) s"

fun hashLoop :: "int \<Rightarrow> codeUnit list \<Rightarrow> int" where
  "hashLoop hash [] = hash"
| "hashLoop hash (c # cs) =
     (let char = uint c;
          hash1 = (shiftLeft hash 5 - hash) + char;
          hash2 = bitAnd hash1 hash1
      in hashLoop hash2 cs)"

definition simpleHash :: "codeUnit list \<Rightarrow> int" where
  "simpleHash str = \<bar>hashLoop 0 str\<bar>"

text \<open>
  The reference rolling hash over a list of character codes: the accumulator starts at 0,
  each code takes it to \<open>acc * 31 + code\<close> truncated to the 32-bit signed range, and the
  absolute value of the final accumulator is returned.
\<close>

fun rollingLoop :: "int \<Rightarrow> int list \<Rightarrow> int" where
  "rollingLoop acc [] = acc"
| "rollingLoop acc (code # codes) = rollingLoop (toInt32 (acc * 31 + code)) codes"

definition rollingHash :: "int list \<Rightarrow> int" where
  "rollingHash codes = \<bar>rollingLoop 0 codes\<bar>"

text \<open>
  The specification takes the code of each character to be its code point. The code points
  of a string are read off its code units as the string iterator does: a high surrogate
  followed by a low surrogate is one code point beyond U+FFFF, and every other unit is a
  code point by itself.
\<close>

definition isHighSurrogate :: "codeUnit \<Rightarrow> bool" where
  "isHighSurrogate u = (55296 \<le> uint u \<and> uint u \<le> 56319)"

definition isLowSurrogate :: "codeUnit \<Rightarrow> bool" where
  "isLowSurrogate u = (56320 \<le> uint u \<and> uint u \<le> 57343)"

fun codePoints :: "codeUnit list \<Rightarrow> int list" where
  "codePoints [] = []"
| "codePoints [u] = [uint u]"
| "codePoints (u # v # rest) =
     (if isHighSurrogate u \<and> isLowSurrogate v
      then (65536 + (uint u - 55296) * 1024 + (uint v - 56320)) # codePoints rest
      else uint u # codePoints (v # rest))"

fun hasSurrogatePair :: "codeUnit list \<Rightarrow> bool" where
  "hasSurrogatePair [] = False"
| "hasSurrogatePair [u] = False"
| "hasSurrogatePair (u # v # rest) =
     ((isHighSurrogate u \<and> isLowSurrogate v) \<or> hasSurrogatePair (v # rest))"

definition specHash :: "codeUnit list \<Rightarrow> int" where
  \<comment> \<open>the rolling hash as the specification words it, over code points\<close>
  "specHash str = rollingHash (codePoints str)"

subsection \<open>isTrustedDomain\<close>

definition trustedDomains :: "string list" where
  "trustedDomains =
     [''google.com'', ''github.com'', ''microsoft.com'', ''apple.com'',
      ''amazon.com'', ''cloudflare.com'', ''mozilla.org'', ''w3.org'',
      ''stackoverflow.com'', ''wikipedia.org'', ''edu'', ''gov'']"

definition isTrustedDomain :: "string \<Rightarrow> bool" where
  "isTrustedDomain d =
     (let normalized = stripWww (toLowerCase d)
      in list_ex (\<lambda>trusted.
            normalized = trusted \<or>
            endsWith normalized (''.'' @ trusted) \<or>
            endsWith normalized ''.edu'' \<or>
            endsWith normalized ''.gov'') trustedDomains)"

text \<open>
  The classifier as the specification words it, over the ten-entry allow-list.
\<close>

definition specAllowList :: "string list" where
  "specAllowList =
     [''google.com'', ''github.com'', ''microsoft.com'', ''apple.com'',
      ''amazon.com'', ''cloudflare.com'', ''mozilla.org'', ''w3.org'',
      ''stackoverflow.com'', ''wikipedia.org'']"

definition specTrusted :: "string \<Rightarrow> bool" where
  "specTrusted d =
     (let normalized = stripWww (toLowerCase d)
      in list_ex (\<lambda>t. normalized = t) specAllowList \<or>
         endsWith normalized ''.edu'' \<or>
         endsWith normalized ''.gov'' \<or>
         list_ex (\<lambda>t. endsWith normalized (''.'' @ t)) specAllowList)"

subsection \<open>cleanDomain\<close>

definition cleanDomain :: "string \<Rightarrow> string" where
  "cleanDomain input =
     splitFirst (CHR ''?'') (splitFirst (CHR ''/'') (stripSchemeWww (toLowerCase (trim input))))"

definition isTrimmed :: "string \<Rightarrow> bool" where
  \<comment> \<open>no white space at either end\<close>
  "isTrimmed s = (s = [] \<or> (\<not> isWhiteSpace (hd s) \<and> \<not> isWhiteSpace (last s)))"

subsection \<open>performSecurityAssessment\<close>

definition certificate :: "bool \<Rightarrow> bool \<Rightarrow> int \<Rightarrow> CertificateStatus \<times> int option" where
  \<comment> \<open>the certificate status logic: the values \<open>certStatus\<close> and \<open>expiryDays\<close> end with,
     \<open>None\<close> for \<open>null\<close>\<close>
  "certificate hasSSL isTrusted hash =
     (if \<not> hasSSL then (Unknown, None)
      else if isTrusted then (Valid, Some (90 + rem hash 275))
      else (let certRoll = rem hash 100
            in if certRoll > 20 then (Valid, Some (30 + rem hash 335))
               else if certRoll > 5 then (Unknown, None)
               else (Expired, None)))"

definition securityHeaders :: "bool \<Rightarrow> int \<Rightarrow> SecurityHeader list" where
  \<comment> \<open>the array literal \<open>headers\<close>\<close>
  "securityHeaders isTrusted hash =
     [\<lparr>name = ''HSTS (Strict-Transport-Security)'',
       description = ''Forces browsers to use HTTPS, preventing downgrade attacks'',
       present = (isTrusted \<or> rem hash 7 > 2),
       recommendation = ''Enable HSTS with a minimum max-age of 31536000 seconds''\<rparr>,
      \<lparr>name = ''Content-Security-Policy'',
       description = ''Prevents XSS attacks by controlling resource loading'',
       present = (isTrusted \<or> rem hash 11 > 4),
       recommendation = ''Implement a strict CSP that limits script and style sources''\<rparr>,
      \<lparr>name = ''X-Frame-Options'',
       description = ''Prevents clickjacking by controlling iframe embedding'',
       present = (isTrusted \<or> rem hash 5 > 1),
       recommendation = ''Set to DENY or SAMEORIGIN to prevent framing attacks''\<rparr>,
      \<lparr>name = ''X-Content-Type-Options'',
       description = ''Prevents MIME type sniffing attacks'',
       present = (isTrusted \<or> rem hash 4 > 0),
       recommendation = ''Set to 'nosniff' to prevent MIME type confusion''\<rparr>]"

definition deductedScore :: "bool \<Rightarrow> CertificateStatus \<Rightarrow> SecurityHeader list \<Rightarrow> bool \<Rightarrow> int" where
  \<comment> \<open>the running \<open>riskScore\<close> variable from its initialisation to the last deduction,
     before it is clamped\<close>
  "deductedScore hasSSL certStatus headerList dnsReachable =
     (let riskScore = 100;
          riskScore = (if \<not> hasSSL then riskScore - 30 else riskScore);
          riskScore = (if certStatus = Unknown then riskScore - 10 else riskScore);
          riskScore = (if certStatus = Expired then riskScore - 20 else riskScore);
          riskScore = foldl (\<lambda>riskScore header.
                        if \<not> present header then riskScore - 10 else riskScore) riskScore headerList;
          riskScore = (if \<not> dnsReachable then riskScore - 15 else riskScore)
      in riskScore)"

definition riskRating :: "int \<Rightarrow> RiskLevel" where
  \<comment> \<open>the overall risk rating chosen from the clamped score\<close>
  "riskRating score =
     (if score \<ge> 70 then Low
      else if score \<ge> 40 then Medium
      else High)"

definition collectRecommendations ::
  "bool \<Rightarrow> CertificateStatus \<Rightarrow> SecurityHeader list \<Rightarrow> bool \<Rightarrow> string list" where
  "collectRecommendations hasSSL certStatus headerList dnsReachable =
     (let recommendations = [];
          recommendations =
            (if \<not> hasSSL
             then recommendations @ [''Implement SSL/TLS encryption to secure data in transit'']
             else recommendations);
          recommendations =
            (if certStatus = Expired
             then recommendations @ [''Renew the SSL/TLS certificate immediately'']
             else recommendations);
          recommendations =
            (if certStatus = Unknown
             then recommendations @ [''Verify SSL/TLS certificate configuration'']
             else recommendations);
          recommendations =
            foldl (\<lambda>recommendations header.
                     if \<not> present header then recommendations @ [recommendation header]
                     else recommendations) recommendations headerList;
          recommendations =
            (if \<not> dnsReachable
             then recommendations @ [''Investigate DNS configuration and ensure proper resolution'']
             else recommendations);
          recommendations =
            (if length recommendations = 0
             then recommendations @ [''Continue monitoring and maintain current security controls'']
             else recommendations)
      in recommendations)"

definition performSecurityAssessment :: "string \<Rightarrow> string \<Rightarrow> SecurityReport" where
  \<comment> \<open>the first argument is the text \<open>new Date().toISOString()\<close> yields at the call\<close>
  "performSecurityAssessment now domainInput =
     (let cleanedDomain = cleanDomain domainInput;
          hash = simpleHash (codeUnits cleanedDomain);
          isTrusted = isTrustedDomain cleanedDomain;
          hasSSL = (isTrusted \<or> rem hash 10 > 2);
          (certStatus, expiryDays) = certificate hasSSL isTrusted hash;
          headers = securityHeaders isTrusted hash;
          dnsReachable = (isTrusted \<or> rem hash 20 > 1);
          responseTime =
            (if dnsReachable then numberToString (50 + rem hash 150) @ ''ms'' else ''N/A'');
          riskScore = deductedScore hasSSL certStatus headers dnsReachable;
          riskScore = max 0 (min 100 riskScore);
          overallRisk = riskRating riskScore;
          recommendations = collectRecommendations hasSSL certStatus headers dnsReachable
      in \<lparr>domain = cleanedDomain,
          timestamp = now,
          ssl = \<lparr>available = hasSSL, certificateStatus = certStatus, expiryDays = expiryDays\<rparr>,
          headers = headers,
          dns = \<lparr>reachable = dnsReachable, responseTime = responseTime\<rparr>,
          overallRisk = overallRisk,
          riskScore = riskScore,
          recommendations = recommendations\<rparr>)"

section \<open>The PDF export: rating label and risk interpretation\<close>

definition ratingLabel :: "SecurityReport \<Rightarrow> string" where
  "ratingLabel report =
     (if riskScore report \<ge> 80 then ''Strong (Low Risk)''
      else if riskScore report \<ge> 50 then ''Moderate (Medium Risk)''
      else ''Weak (High Risk)'')"

definition strongPostureText :: string where
  "strongPostureText =
     ''The assessed website demonstrates a STRONG security posture with minimal identified risks. '' @
     ''Core security controls are in place, and the site appears to follow security best practices. '' @
     ''Regular monitoring and periodic reassessment are recommended to maintain this level of security.''"

definition moderatePostureText :: string where
  "moderatePostureText =
     ''The assessed website shows a MODERATE security posture with some areas requiring attention. '' @
     ''While basic security measures are present, there are gaps that could potentially be exploited. '' @
     ''Implementing the recommended controls would significantly improve the security posture.''"

definition weakPostureText :: string where
  "weakPostureText =
     ''The assessed website has a WEAK security posture with significant risks identified. '' @
     ''Critical security controls appear to be missing or misconfigured. '' @
     ''Immediate action is recommended to address the identified vulnerabilities and reduce exposure to attacks.''"

definition riskInterpretation :: "SecurityReport \<Rightarrow> string" where
  \<comment> \<open>the text the export passes to \<open>addText\<close> under the heading Risk Interpretation\<close>
  "riskInterpretation report =
     (if riskScore report \<ge> 80 then strongPostureText
      else if riskScore report \<ge> 50 then moderatePostureText
      else weakPostureText)"

section \<open>The rolling hash\<close>

lemma wrap_mod: "((x + k) mod m - k) mod m = x mod (m::int)"
  by (simp add: mod_diff_left_eq)

lemma wrap_cong: "a mod m = b mod (m::int) \<Longrightarrow> (a + k) mod m - k = (b + k) mod m - k"
  by (metis mod_add_left_eq)

lemma shift_sub_add_mod:
  assumes s: "s mod m = (t * 32) mod (m::int)" and t: "t mod m = h mod m"
  shows "(s - h + c) mod m = (h * 31 + c) mod m"
proof -
  have "(t * 32) mod m = (h * 32) mod m"
    using t by (metis mod_mult_left_eq)
  with s have "s mod m = (h * 32) mod m" by simp
  then have "(s - h + c) mod m = (h * 32 - h + c) mod m"
    by (metis mod_add_left_eq mod_diff_left_eq)
  also have "h * 32 - h + c = h * 31 + c" by simp
  finally show ?thesis .
qed

lemma toInt32_mod: "toInt32 x mod 4294967296 = x mod 4294967296"
  unfolding toInt32_def by (rule wrap_mod)

lemma toInt32_cong: "a mod 4294967296 = b mod 4294967296 \<Longrightarrow> toInt32 a = toInt32 b"
  unfolding toInt32_def by (rule wrap_cong)

lemma bitAnd_same: "bitAnd a a = toInt32 a"
  unfolding bitAnd_def by (rule and.idem)

lemma shiftLeft_5: "shiftLeft h 5 = toInt32 (toInt32 h * 32)"
proof -
  have "(2::int) ^ (5 mod 32) = 32" by simp
  then show ?thesis unfolding shiftLeft_def by (rule arg_cong)
qed

lemma hash_step:
  "bitAnd (shiftLeft h 5 - h + c) (shiftLeft h 5 - h + c) = toInt32 (h * 31 + c)"
proof -
  have "shiftLeft h 5 mod 4294967296 = (toInt32 h * 32) mod 4294967296"
    unfolding shiftLeft_5 by (rule toInt32_mod)
  then have "(shiftLeft h 5 - h + c) mod 4294967296 = (h * 31 + c) mod 4294967296"
    using toInt32_mod [of h] by (rule shift_sub_add_mod)
  then show ?thesis
    unfolding bitAnd_same by (rule toInt32_cong)
qed

lemma hashLoop_rolling: "hashLoop h str = rollingLoop h (map uint str)"
proof (induction str arbitrary: h)
  case Nil
  show ?case by simp
next
  case (Cons c cs)
  show ?case
    by (simp only: hashLoop.simps rollingLoop.simps list.map Let_def hash_step Cons.IH)
qed

lemma simpleHash_rolling: "simpleHash str = rollingHash (map uint str)"
  unfolding simpleHash_def rollingHash_def by (simp only: hashLoop_rolling)

lemma simpleHash_nonneg: "0 \<le> simpleHash str"
  unfolding simpleHash_def by (rule abs_ge_zero)

lemma rem_simpleHash: "0 < m \<Longrightarrow> rem (simpleHash str) m = simpleHash str mod m"
  using simpleHash_nonneg [of str] by (cases "simpleHash str = 0") (simp_all add: rem_def)

lemma codePoints_without_pair:
  "\<not> hasSurrogatePair str \<Longrightarrow> codePoints str = map uint str"
  by (induction str rule: codePoints.induct) auto

text \<open>
  Claim C4 (amended). For every string, \<open>simpleHash\<close> returns exactly what the reference
  rolling hash returns on the string's UTF-16 code units, the values of \<open>charCodeAt\<close>: the
  accumulator starts at 0, every code unit takes it to \<open>acc * 31 + unit\<close> truncated to
  the signed 32-bit range, and the result is the absolute value of the last accumulator.
  For a string with no surrogate pair the code units are the code points, and there
  \<open>simpleHash\<close> is the hash over code points of the specification.
\<close>

theorem simpleHash_code_unit_hash:
  "simpleHash str = rollingHash (map uint str) \<and>
   (\<not> hasSurrogatePair str \<longrightarrow> simpleHash str = specHash str)"
proof
  show "simpleHash str = rollingHash (map uint str)" by (rule simpleHash_rolling)
  show "\<not> hasSurrogatePair str \<longrightarrow> simpleHash str = specHash str"
    unfolding specHash_def by (simp add: simpleHash_rolling codePoints_without_pair)
qed

theorem simpleHash_code_unit_hash_witness:
  "\<not> hasSurrogatePair [0x4E2D, 0x6587] \<and>
   simpleHash [0x4E2D, 0x6587] = specHash [0x4E2D, 0x6587] \<and>
   simpleHash [0x4E2D, 0x6587] = rollingHash [20013, 25991]"
proof -
  have h: "\<not> hasSurrogatePair [0x4E2D, 0x6587 :: codeUnit]" by code_simp
  have u: "map uint [0x4E2D, 0x6587 :: codeUnit] = [20013, 25991]" by simp
  from simpleHash_code_unit_hash [of "[0x4E2D, 0x6587]"] h u show ?thesis by simp
qed

text \<open>
  The claim as the specification states it, with the code point of each character, fails
  on a string with a surrogate pair. U+1F600 is the two code units D83D and DE00: the loop
  runs twice and returns \<open>55357 * 31 + 56832\<close>, and the hash over code points is the code
  point 128512 itself.
\<close>

theorem simpleHash_surrogate_pair:
  "simpleHash [0xD83D, 0xDE00] = 1772899 \<and>
   specHash [0xD83D, 0xDE00] = 128512 \<and>
   simpleHash [0xD83D, 0xDE00] \<noteq> specHash [0xD83D, 0xDE00]"
  by code_simp

section \<open>The domain normalizer\<close>

lemma toLowerChar_idem: "toLowerChar (toLowerChar c) = toLowerChar c"
  by (auto simp add: toLowerChar_def Let_def)

lemma toLowerCase_fixed: "c \<in> set (toLowerCase s) \<Longrightarrow> toLowerChar c = c"
  by (auto simp add: toLowerCase_def toLowerChar_idem)

lemma map_toLowerChar_fixed:
  "set t \<subseteq> set (toLowerCase s) \<Longrightarrow> toLowerCase t = t"
  unfolding toLowerCase_def by (metis map_idI subsetD toLowerCase_def toLowerCase_fixed)

lemma set_stripWww: "set (stripWww s) \<subseteq> set s"
  by (auto simp add: stripWww_def dest: in_set_dropD)

lemma set_stripSchemeWww: "set (stripSchemeWww s) \<subseteq> set s"
  unfolding stripSchemeWww_def using set_stripWww by (auto dest: in_set_dropD)

lemma set_splitFirst: "set (splitFirst sep s) \<subseteq> set s - {sep}"
  by (auto simp add: splitFirst_def dest: set_takeWhileD)

lemma set_cleanDomain:
  "set (cleanDomain s) \<subseteq> set (toLowerCase (trim s)) - {CHR ''/'', CHR ''?''}"
proof -
  let ?u = "stripSchemeWww (toLowerCase (trim s))"
  have a: "set (splitFirst (CHR ''/'') ?u) \<subseteq> set ?u - {CHR ''/''}" by (rule set_splitFirst)
  have b: "set (cleanDomain s) \<subseteq> set (splitFirst (CHR ''/'') ?u) - {CHR ''?''}"
    unfolding cleanDomain_def by (rule set_splitFirst)
  have c: "set ?u \<subseteq> set (toLowerCase (trim s))" by (rule set_stripSchemeWww)
  from a b c show ?thesis by blast
qed

lemma splitFirst_absent: "sep \<notin> set s \<Longrightarrow> splitFirst sep s = s"
  by (auto simp add: splitFirst_def)

lemma startsWith_set: "startsWith s p \<Longrightarrow> set p \<subseteq> set s"
  unfolding startsWith_def by (metis set_take_subset)

lemma no_scheme: "CHR ''/'' \<notin> set s \<Longrightarrow> \<not> startsWith s ''https://'' \<and> \<not> startsWith s ''http://''"
  by (auto dest!: startsWith_set)

lemma dropWhile_same_length:
  "length (dropWhile P xs) = length xs \<Longrightarrow> dropWhile P xs = xs"
proof -
  assume a: "length (dropWhile P xs) = length xs"
  have "length (takeWhile P xs) + length (dropWhile P xs) = length xs"
    by (metis length_append takeWhile_dropWhile_id)
  with a have "takeWhile P xs = []" by simp
  then show ?thesis by (metis append_Nil takeWhile_dropWhile_id)
qed

lemma startsWith_length: "startsWith s p \<Longrightarrow> length p \<le> length s"
proof -
  assume "startsWith s p"
  then have "length (take (length p) s) = length p" by (simp add: startsWith_def)
  then show ?thesis by simp
qed

lemma length_trim: "length (trim s) \<le> length s"
  unfolding trim_def
  by (metis length_dropWhile_le length_rev order_trans)

lemma trim_fixed_iff: "trim s = s \<longleftrightarrow> isTrimmed s"
proof
  assume "isTrimmed s"
  then show "trim s = s"
  proof (cases "s = []")
    case True then show ?thesis by (simp add: trim_def)
  next
    case False
    with \<open>isTrimmed s\<close> have h: "\<not> isWhiteSpace (hd s)" and l: "\<not> isWhiteSpace (last s)"
      by (auto simp add: isTrimmed_def)
    from False h have d1: "dropWhile isWhiteSpace s = s" by (simp add: dropWhile_eq_self_iff)
    from False l have d2: "dropWhile isWhiteSpace (rev s) = rev s" by (simp add: dropWhile_eq_self_iff hd_rev)
    show ?thesis by (simp add: trim_def d1 d2)
  qed
next
  assume eq: "trim s = s"
  have l1: "length (dropWhile isWhiteSpace (rev (dropWhile isWhiteSpace s))) \<le> length (dropWhile isWhiteSpace s)"
    by (metis length_dropWhile_le length_rev)
  have l2: "length (dropWhile isWhiteSpace s) \<le> length s"
    by (rule length_dropWhile_le)
  from eq have "length (dropWhile isWhiteSpace (rev (dropWhile isWhiteSpace s))) = length s"
    unfolding trim_def by (metis length_rev)
  with l1 l2 have a: "length (dropWhile isWhiteSpace s) = length s" by linarith
  have d1: "dropWhile isWhiteSpace s = s"
    using a by (rule dropWhile_same_length)
  with eq have "dropWhile isWhiteSpace (rev s) = rev s"
    unfolding trim_def by (metis rev_rev_ident)
  with d1 show "isTrimmed s"
    by (cases "s = []") (auto simp add: isTrimmed_def dropWhile_eq_self_iff hd_rev)
qed


lemma length_stripWww: "length (stripWww s) \<le> length s"
  by (simp add: stripWww_def)

lemma length_stripSchemeWww: "length (stripSchemeWww s) \<le> length s"
  unfolding stripSchemeWww_def
  by (rule order_trans [OF length_stripWww]) simp

lemma length_splitFirst: "length (splitFirst sep s) \<le> length s"
  by (simp add: splitFirst_def length_takeWhile_le)

lemma length_cleanDomain_strip:
  "length (cleanDomain s) \<le> length (stripSchemeWww (toLowerCase (trim s)))"
  unfolding cleanDomain_def
  by (rule order_trans [OF length_splitFirst]) (rule length_splitFirst)

lemma length_cleanDomain_trim: "length (cleanDomain s) \<le> length (trim s)"
proof -
  have "length (stripSchemeWww (toLowerCase (trim s))) \<le> length (toLowerCase (trim s))"
    by (rule length_stripSchemeWww)
  then show ?thesis
    using length_cleanDomain_strip [of s] by (simp add: toLowerCase_def)
qed

lemma cleanDomain_fixed:
  assumes low: "toLowerCase t = t" and tr: "isTrimmed t"
    and sl: "CHR ''/'' \<notin> set t" and qu: "CHR ''?'' \<notin> set t"
    and www: "\<not> startsWith t ''www.''"
  shows "cleanDomain t = t"
proof -
  from tr have "trim t = t" by (simp add: trim_fixed_iff)
  moreover from sl www have "stripSchemeWww t = t"
    using no_scheme [of t] by (simp add: stripSchemeWww_def stripWww_def)
  ultimately show ?thesis
    using low sl qu by (simp add: cleanDomain_def splitFirst_absent)
qed

lemma cleanDomain_shrinks_untrimmed:
  assumes "\<not> isTrimmed t" shows "length (cleanDomain t) < length t"
proof -
  from assms have "trim t \<noteq> t" by (simp add: trim_fixed_iff)
  have "length (trim t) \<noteq> length t"
  proof
    assume e: "length (trim t) = length t"
    have l1: "length (dropWhile isWhiteSpace (rev (dropWhile isWhiteSpace t))) \<le> length (dropWhile isWhiteSpace t)"
      by (metis length_dropWhile_le length_rev)
    have l2: "length (dropWhile isWhiteSpace t) \<le> length t"
      by (rule length_dropWhile_le)
    from e have e': "length (dropWhile isWhiteSpace (rev (dropWhile isWhiteSpace t))) = length t"
      by (simp add: trim_def)
    with l1 l2 have a: "length (dropWhile isWhiteSpace t) = length t" by linarith
    have d1: "dropWhile isWhiteSpace t = t"
      using a by (rule dropWhile_same_length)
    from e' d1 have "length (dropWhile isWhiteSpace (rev t)) = length (rev t)" by simp
    then have "dropWhile isWhiteSpace (rev t) = rev t"
      by (rule dropWhile_same_length)
    with d1 have "trim t = t" by (simp add: trim_def)
    with \<open>trim t \<noteq> t\<close> show False by simp
  qed
  with length_trim [of t] have "length (trim t) < length t" by linarith
  with length_cleanDomain_trim [of t] show ?thesis by linarith
qed

lemma cleanDomain_shrinks_www:
  assumes low: "toLowerCase t = t" and tr: "isTrimmed t"
    and sl: "CHR ''/'' \<notin> set t" and www: "startsWith t ''www.''"
  shows "length (cleanDomain t) < length t"
proof -
  from tr have t: "trim t = t" by (simp add: trim_fixed_iff)
  from www have "length t \<ge> 4"
    using startsWith_length [of t "''www.''"] by simp
  moreover from sl www have "stripSchemeWww t = drop 4 t"
    using no_scheme [of t] by (simp add: stripSchemeWww_def stripWww_def)
  ultimately have "length (stripSchemeWww (toLowerCase (trim t))) < length t"
    using low t by simp
  with length_cleanDomain_strip [of t] show ?thesis by linarith
qed

text \<open>
  Claim C1 (amended). Applying \<open>cleanDomain\<close> a second time changes nothing exactly when
  the first result does not begin with \<open>www.\<close> and has no white space at either end.
  The pattern removes one \<open>www.\<close> per call, and white space is trimmed before the
  prefix and the path are cut off, so either can survive the first call.
\<close>

theorem cleanDomain_idempotent_iff:
  "cleanDomain (cleanDomain s) = cleanDomain s \<longleftrightarrow>
     \<not> startsWith (cleanDomain s) ''www.'' \<and> isTrimmed (cleanDomain s)"
proof -
  let ?t = "cleanDomain s"
  have sub: "set ?t \<subseteq> set (toLowerCase (trim s)) - {CHR ''/'', CHR ''?''}"
    by (rule set_cleanDomain)
  then have low: "toLowerCase ?t = ?t" by (auto intro: map_toLowerChar_fixed)
  from sub have sl: "CHR ''/'' \<notin> set ?t" and qu: "CHR ''?'' \<notin> set ?t" by auto
  show ?thesis
  proof
    assume eq: "cleanDomain ?t = ?t"
    show "\<not> startsWith ?t ''www.'' \<and> isTrimmed ?t"
    proof (rule ccontr)
      assume "\<not> (\<not> startsWith ?t ''www.'' \<and> isTrimmed ?t)"
      then have "length (cleanDomain ?t) < length ?t"
        using cleanDomain_shrinks_untrimmed [of ?t] cleanDomain_shrinks_www [OF low _ sl] by blast
      with eq show False by simp
    qed
  next
    assume "\<not> startsWith ?t ''www.'' \<and> isTrimmed ?t"
    then show "cleanDomain ?t = ?t"
      using cleanDomain_fixed [OF low _ sl qu] by blast
  qed
qed

theorem cleanDomain_idempotent_witness:
  "\<not> startsWith (cleanDomain ''HTTPS://WWW.Example.com/path?x=1'') ''www.'' \<and>
   isTrimmed (cleanDomain ''HTTPS://WWW.Example.com/path?x=1'') \<and>
   cleanDomain (cleanDomain ''HTTPS://WWW.Example.com/path?x=1'') =
     cleanDomain ''HTTPS://WWW.Example.com/path?x=1''"
proof -
  have h: "\<not> startsWith (cleanDomain ''HTTPS://WWW.Example.com/path?x=1'') ''www.'' \<and>
           isTrimmed (cleanDomain ''HTTPS://WWW.Example.com/path?x=1'')"
    by code_simp
  with cleanDomain_idempotent_iff [of "''HTTPS://WWW.Example.com/path?x=1''"]
  show ?thesis by blast
qed

text \<open>
  The claim as the specification states it fails: a doubled \<open>www.\<close> prefix loses one
  copy per call.
\<close>

theorem cleanDomain_not_idempotent:
  "cleanDomain (cleanDomain ''www.www.a.com'') \<noteq> cleanDomain ''www.www.a.com''"
  by code_simp

section \<open>The assessment engine: what each field of the report is\<close>

lemma report_domain: "domain (performSecurityAssessment now s) = cleanDomain s"
  by (simp add: performSecurityAssessment_def Let_def case_prod_beta)

lemma report_timestamp: "timestamp (performSecurityAssessment now s) = now"
  by (simp add: performSecurityAssessment_def Let_def case_prod_beta)

lemma report_available:
  "available (ssl (performSecurityAssessment now s)) =
     (isTrustedDomain (cleanDomain s) \<or> rem (simpleHash (codeUnits (cleanDomain s))) 10 > 2)"
  by (simp add: performSecurityAssessment_def Let_def case_prod_beta)

lemma certificate_status:
  "fst (certificate hasSSL isTrusted hash) =
     (if \<not> hasSSL then Unknown
      else if isTrusted then Valid
      else if rem hash 100 > 20 then Valid
      else if rem hash 100 > 5 then Unknown
      else Expired)"
  by (simp add: certificate_def Let_def)

lemma report_certificate:
  "certificateStatus (ssl (performSecurityAssessment now s)) =
     fst (certificate (available (ssl (performSecurityAssessment now s)))
            (isTrustedDomain (cleanDomain s)) (simpleHash (codeUnits (cleanDomain s))))"
  by (simp add: performSecurityAssessment_def Let_def case_prod_beta)

lemma report_certificateStatus:
  "certificateStatus (ssl (performSecurityAssessment now s)) =
     (if \<not> available (ssl (performSecurityAssessment now s)) then Unknown
      else if isTrustedDomain (cleanDomain s) then Valid
      else if rem (simpleHash (codeUnits (cleanDomain s))) 100 > 20 then Valid
      else if rem (simpleHash (codeUnits (cleanDomain s))) 100 > 5 then Unknown
      else Expired)"
  unfolding report_certificate certificate_status ..

lemma report_reachable:
  "reachable (dns (performSecurityAssessment now s)) =
     (isTrustedDomain (cleanDomain s) \<or> rem (simpleHash (codeUnits (cleanDomain s))) 20 > 1)"
  by (simp add: performSecurityAssessment_def Let_def case_prod_beta)

lemma report_headers:
  "headers (performSecurityAssessment now s) =
     securityHeaders (isTrustedDomain (cleanDomain s)) (simpleHash (codeUnits (cleanDomain s)))"
  by (simp add: performSecurityAssessment_def Let_def case_prod_beta)

lemma securityHeaders_present:
  "map present (securityHeaders isTrusted hash) =
     [isTrusted \<or> rem hash 7 > 2, isTrusted \<or> rem hash 11 > 4,
      isTrusted \<or> rem hash 5 > 1, isTrusted \<or> rem hash 4 > 0]"
  unfolding securityHeaders_def by simp

lemma report_present:
  "map present (headers (performSecurityAssessment now s)) =
     [isTrustedDomain (cleanDomain s) \<or> rem (simpleHash (codeUnits (cleanDomain s))) 7 > 2,
      isTrustedDomain (cleanDomain s) \<or> rem (simpleHash (codeUnits (cleanDomain s))) 11 > 4,
      isTrustedDomain (cleanDomain s) \<or> rem (simpleHash (codeUnits (cleanDomain s))) 5 > 1,
      isTrustedDomain (cleanDomain s) \<or> rem (simpleHash (codeUnits (cleanDomain s))) 4 > 0]"
  unfolding report_headers securityHeaders_present ..

lemma report_headers_length: "length (headers (performSecurityAssessment now s)) = 4"
  using arg_cong [OF report_present [of now s], of length] by simp

lemma report_riskScore:
  "riskScore (performSecurityAssessment now s) =
     max 0 (min 100 (deductedScore
        (available (ssl (performSecurityAssessment now s)))
        (certificateStatus (ssl (performSecurityAssessment now s)))
        (headers (performSecurityAssessment now s))
        (reachable (dns (performSecurityAssessment now s)))))"
  by (simp add: performSecurityAssessment_def Let_def case_prod_beta)

lemma report_rating:
  "overallRisk (performSecurityAssessment now s) =
     riskRating (riskScore (performSecurityAssessment now s))"
  by (simp add: performSecurityAssessment_def Let_def case_prod_beta)

lemma report_overallRisk:
  "overallRisk (performSecurityAssessment now s) =
     (if riskScore (performSecurityAssessment now s) \<ge> 70 then Low
      else if riskScore (performSecurityAssessment now s) \<ge> 40 then Medium
      else High)"
  unfolding report_rating riskRating_def ..

lemma report_recommendations:
  "recommendations (performSecurityAssessment now s) =
     collectRecommendations
        (available (ssl (performSecurityAssessment now s)))
        (certificateStatus (ssl (performSecurityAssessment now s)))
        (headers (performSecurityAssessment now s))
        (reachable (dns (performSecurityAssessment now s)))"
  by (simp add: performSecurityAssessment_def Let_def case_prod_beta)

lemma report_clock:
  "performSecurityAssessment t1 s = (performSecurityAssessment t2 s)\<lparr>timestamp := t1\<rparr>"
  by (simp add: performSecurityAssessment_def Let_def case_prod_beta)

lemma report_via_cleanDomain:
  assumes "cleanDomain a = cleanDomain b"
  shows "performSecurityAssessment t a = (performSecurityAssessment t' b)\<lparr>timestamp := t\<rparr>"
proof -
  have "performSecurityAssessment t a = performSecurityAssessment t b"
    unfolding performSecurityAssessment_def assms ..
  then show ?thesis by (simp only: report_clock [of t b t'])
qed

subsection \<open>The score\<close>

lemma foldl_deduct:
  "foldl (\<lambda>riskScore header. if \<not> present header then riskScore - 10 else riskScore) a hs =
     a - 10 * int (length (filter (\<lambda>h. \<not> present h) hs))"
  by (induction hs arbitrary: a) simp_all

lemma deductedScore_formula:
  "deductedScore hasSSL certStatus hs dnsReachable =
     100 - (if hasSSL then 0 else 30)
         - (if certStatus = Unknown then 10 else 0)
         - (if certStatus = Expired then 20 else 0)
         - 10 * int (length (filter (\<lambda>h. \<not> present h) hs))
         - (if dnsReachable then 0 else 15)"
  unfolding deductedScore_def Let_def foldl_deduct by simp

lemma deductedScore_upper: "deductedScore hasSSL certStatus hs dnsReachable \<le> 100"
  unfolding deductedScore_formula by simp

lemma deductedScore_lower:
  assumes "\<not> hasSSL \<longrightarrow> certStatus = Unknown" and "length hs = 4"
  shows "5 \<le> deductedScore hasSSL certStatus hs dnsReachable"
proof -
  have "length (filter (\<lambda>h. \<not> present h) hs) \<le> 4"
    using length_filter_le [of "\<lambda>h. \<not> present h" hs] assms(2) by simp
  with assms(1) show ?thesis
    unfolding deductedScore_formula by (cases certStatus) auto
qed

lemma report_unavailable_unknown:
  "\<not> available (ssl (performSecurityAssessment now s)) \<longrightarrow>
     certificateStatus (ssl (performSecurityAssessment now s)) = Unknown"
  by (simp add: report_certificateStatus)

section \<open>Properties of the report\<close>

text \<open>
  Claim C3. Two calls of \<open>performSecurityAssessment\<close> on the same string, made at any two
  clock readings, give reports that agree in every field other than \<open>timestamp\<close>.
\<close>

theorem assessment_deterministic:
  "domain (performSecurityAssessment t1 s) = domain (performSecurityAssessment t2 s) \<and>
   ssl (performSecurityAssessment t1 s) = ssl (performSecurityAssessment t2 s) \<and>
   headers (performSecurityAssessment t1 s) = headers (performSecurityAssessment t2 s) \<and>
   dns (performSecurityAssessment t1 s) = dns (performSecurityAssessment t2 s) \<and>
   overallRisk (performSecurityAssessment t1 s) = overallRisk (performSecurityAssessment t2 s) \<and>
   riskScore (performSecurityAssessment t1 s) = riskScore (performSecurityAssessment t2 s) \<and>
   recommendations (performSecurityAssessment t1 s) =
     recommendations (performSecurityAssessment t2 s) \<and>
   timestamp (performSecurityAssessment t1 s) = t1 \<and>
   timestamp (performSecurityAssessment t2 s) = t2"
  by (simp add: report_clock [of t1 s t2] report_timestamp)

text \<open>
  Claim C6. When the cleaned domain is trusted, the report has SSL available, a Valid
  certificate and a reachable DNS.
\<close>

theorem trusted_domain_floor:
  assumes "isTrustedDomain (cleanDomain s)"
  shows "available (ssl (performSecurityAssessment now s)) \<and>
         certificateStatus (ssl (performSecurityAssessment now s)) = Valid \<and>
         reachable (dns (performSecurityAssessment now s))"
  using assms by (simp add: report_certificateStatus report_available report_reachable)

theorem trusted_domain_floor_witness:
  "isTrustedDomain (cleanDomain ''docs.github.com'') \<and>
   available (ssl (performSecurityAssessment ''2024-01-01T00:00:00.000Z'' ''docs.github.com'')) \<and>
   certificateStatus (ssl (performSecurityAssessment ''2024-01-01T00:00:00.000Z'' ''docs.github.com'')) = Valid \<and>
   reachable (dns (performSecurityAssessment ''2024-01-01T00:00:00.000Z'' ''docs.github.com''))"
proof -
  have h: "isTrustedDomain (cleanDomain ''docs.github.com'')" by code_simp
  from trusted_domain_floor [OF h, of "''2024-01-01T00:00:00.000Z''"] h
  show ?thesis by blast
qed

text \<open>
  Claim C7. The score of every report is 100 less 30 when SSL is unavailable, less 10 when
  the certificate status is Unknown, less 20 when it is Expired, less 10 for each header
  that is missing, less 15 when DNS is unreachable, clamped to the range 0..100; so it
  lies between 0 and 100.
\<close>

theorem riskScore_formula:
  "riskScore (performSecurityAssessment now s) =
     max 0 (min 100
       (100 - (if available (ssl (performSecurityAssessment now s)) then 0 else 30)
            - (if certificateStatus (ssl (performSecurityAssessment now s)) = Unknown
               then 10 else 0)
            - (if certificateStatus (ssl (performSecurityAssessment now s)) = Expired
               then 20 else 0)
            - 10 * int (length (filter (\<lambda>h. \<not> present h)
                                   (headers (performSecurityAssessment now s))))
            - (if reachable (dns (performSecurityAssessment now s)) then 0 else 15))) \<and>
   0 \<le> riskScore (performSecurityAssessment now s) \<and>
   riskScore (performSecurityAssessment now s) \<le> 100"
proof -
  have "riskScore (performSecurityAssessment now s) =
     max 0 (min 100
       (100 - (if available (ssl (performSecurityAssessment now s)) then 0 else 30)
            - (if certificateStatus (ssl (performSecurityAssessment now s)) = Unknown
               then 10 else 0)
            - (if certificateStatus (ssl (performSecurityAssessment now s)) = Expired
               then 20 else 0)
            - 10 * int (length (filter (\<lambda>h. \<not> present h)
                                   (headers (performSecurityAssessment now s))))
            - (if reachable (dns (performSecurityAssessment now s)) then 0 else 15)))"
    by (simp only: report_riskScore [of now s] deductedScore_formula)
  moreover have "0 \<le> riskScore (performSecurityAssessment now s) \<and>
                 riskScore (performSecurityAssessment now s) \<le> 100"
    unfolding report_riskScore [of now s] by simp
  ultimately show ?thesis by (rule conjI)
qed

text \<open>
  Claim C8. In every report the score is at least 70 exactly when the overall risk is Low,
  from 40 to 69 exactly when it is Medium, and below 40 exactly when it is High.
\<close>

theorem risk_score_consistency:
  "(riskScore (performSecurityAssessment now s) \<ge> 70 \<longleftrightarrow>
      overallRisk (performSecurityAssessment now s) = Low) \<and>
   (40 \<le> riskScore (performSecurityAssessment now s) \<and>
    riskScore (performSecurityAssessment now s) < 70 \<longleftrightarrow>
      overallRisk (performSecurityAssessment now s) = Medium) \<and>
   (riskScore (performSecurityAssessment now s) < 40 \<longleftrightarrow>
      overallRisk (performSecurityAssessment now s) = High)"
  unfolding report_overallRisk by simp

text \<open>
  Claim C10. The deductions of a report never exceed 95: a report without SSL has the
  status Unknown, never Expired, and there are four headers. So the score before clamping
  is at least 5, the clamp leaves it unchanged, and no report has the score 0.
\<close>

theorem riskScore_at_least_5:
  "5 \<le> riskScore (performSecurityAssessment now s) \<and>
   riskScore (performSecurityAssessment now s) =
     deductedScore
       (available (ssl (performSecurityAssessment now s)))
       (certificateStatus (ssl (performSecurityAssessment now s)))
       (headers (performSecurityAssessment now s))
       (reachable (dns (performSecurityAssessment now s))) \<and>
   riskScore (performSecurityAssessment now s) \<noteq> 0"
proof -
  let ?d = "deductedScore
       (available (ssl (performSecurityAssessment now s)))
       (certificateStatus (ssl (performSecurityAssessment now s)))
       (headers (performSecurityAssessment now s))
       (reachable (dns (performSecurityAssessment now s)))"
  have lo: "5 \<le> ?d"
    using report_unavailable_unknown report_headers_length by (rule deductedScore_lower)
  have hi: "?d \<le> 100" by (rule deductedScore_upper)
  have "riskScore (performSecurityAssessment now s) = max 0 (min 100 ?d)"
    by (rule report_riskScore)
  with lo hi have "riskScore (performSecurityAssessment now s) = ?d" by simp
  with lo show ?thesis by simp
qed

text \<open>
  The bound is attained: the empty input has the hash 0, which fails every check.
\<close>

theorem riskScore_at_least_5_witness:
  "riskScore (performSecurityAssessment ''2024-01-01T00:00:00.000Z'' '''') = 5 \<and>
   deductedScore
     (available (ssl (performSecurityAssessment ''2024-01-01T00:00:00.000Z'' '''')))
     (certificateStatus (ssl (performSecurityAssessment ''2024-01-01T00:00:00.000Z'' '''')))
     (headers (performSecurityAssessment ''2024-01-01T00:00:00.000Z'' ''''))
     (reachable (dns (performSecurityAssessment ''2024-01-01T00:00:00.000Z'' ''''))) = 5"
proof -
  have h: "riskScore (performSecurityAssessment ''2024-01-01T00:00:00.000Z'' '''') = 5"
    by code_simp
  with riskScore_at_least_5 [of "''2024-01-01T00:00:00.000Z''" "''''"]
  show ?thesis by simp
qed

subsection \<open>Trusted domains\<close>

lemma deductedScore_trusted: "deductedScore True Valid (securityHeaders True h) True = 100"
  by (simp add: deductedScore_def securityHeaders_def)

lemma recommendations_trusted:
  "collectRecommendations True Valid (securityHeaders True h) True =
     [''Continue monitoring and maintain current security controls'']"
  by (simp add: collectRecommendations_def securityHeaders_def)

lemma trusted_report:
  assumes T: "isTrustedDomain (cleanDomain s)"
  shows "available (ssl (performSecurityAssessment now s))"
    and "certificateStatus (ssl (performSecurityAssessment now s)) = Valid"
    and "map present (headers (performSecurityAssessment now s)) = [True, True, True, True]"
    and "reachable (dns (performSecurityAssessment now s))"
    and "riskScore (performSecurityAssessment now s) = 100"
    and "overallRisk (performSecurityAssessment now s) = Low"
    and "recommendations (performSecurityAssessment now s) =
           [''Continue monitoring and maintain current security controls'']"
proof -
  show a: "available (ssl (performSecurityAssessment now s))"
    using T by (simp add: report_available)
  show c: "certificateStatus (ssl (performSecurityAssessment now s)) = Valid"
    using T a by (simp add: report_certificateStatus)
  show "map present (headers (performSecurityAssessment now s)) = [True, True, True, True]"
    using T by (simp add: report_present)
  show d: "reachable (dns (performSecurityAssessment now s))"
    using T by (simp add: report_reachable)
  have h: "headers (performSecurityAssessment now s) =
             securityHeaders True (simpleHash (codeUnits (cleanDomain s)))"
    using T by (simp add: report_headers)
  show r: "riskScore (performSecurityAssessment now s) = 100"
    using a c d by (simp add: report_riskScore [of now s] h deductedScore_trusted)
  show "overallRisk (performSecurityAssessment now s) = Low"
    by (simp add: report_overallRisk r)
  show "recommendations (performSecurityAssessment now s) =
          [''Continue monitoring and maintain current security controls'']"
    using a c d by (simp add: report_recommendations [of now s] h recommendations_trusted)
qed

text \<open>
  Claim C9. The report for \<open>google.com\<close> has SSL available, a Valid certificate, all four
  headers present, DNS reachable, the score 100, the risk Low and the one recommendation
  to continue monitoring; \<open>HTTPS://WWW.Google.com/path?x=1\<close> is cleaned to
  \<open>google.com\<close>, and its report is the same in every field other than \<open>timestamp\<close>.
\<close>

theorem google_report:
  "available (ssl (performSecurityAssessment now ''google.com'')) \<and>
   certificateStatus (ssl (performSecurityAssessment now ''google.com'')) = Valid \<and>
   map present (headers (performSecurityAssessment now ''google.com'')) =
     [True, True, True, True] \<and>
   reachable (dns (performSecurityAssessment now ''google.com'')) \<and>
   riskScore (performSecurityAssessment now ''google.com'') = 100 \<and>
   overallRisk (performSecurityAssessment now ''google.com'') = Low \<and>
   recommendations (performSecurityAssessment now ''google.com'') =
     [''Continue monitoring and maintain current security controls''] \<and>
   cleanDomain ''HTTPS://WWW.Google.com/path?x=1'' = ''google.com'' \<and>
   performSecurityAssessment now' ''HTTPS://WWW.Google.com/path?x=1'' =
     (performSecurityAssessment now ''google.com'')\<lparr>timestamp := now'\<rparr>"
proof -
  have c1: "cleanDomain ''google.com'' = ''google.com''" by code_simp
  have c2: "cleanDomain ''HTTPS://WWW.Google.com/path?x=1'' = ''google.com''" by code_simp
  have "isTrustedDomain ''google.com''" by code_simp
  then have T: "isTrustedDomain (cleanDomain ''google.com'')" by (simp only: c1)
  have "cleanDomain ''HTTPS://WWW.Google.com/path?x=1'' = cleanDomain ''google.com''"
    by (simp only: c1 c2)
  then have e: "performSecurityAssessment now' ''HTTPS://WWW.Google.com/path?x=1'' =
     (performSecurityAssessment now ''google.com'')\<lparr>timestamp := now'\<rparr>"
    by (rule report_via_cleanDomain)
  from trusted_report [OF T, of now] c2 e show ?thesis by blast
qed

section \<open>The trust classifier\<close>

text \<open>
  Claim C5 (amended). \<open>isTrustedDomain\<close> holds exactly when the normalized string is one
  of the ten allow-list entries, or is \<open>edu\<close> or \<open>gov\<close> itself, or ends with
  \<open>.edu\<close> or \<open>.gov\<close>, or ends with a dot and an allow-list entry. The bare entries
  \<open>edu\<close> and \<open>gov\<close> of the list change the result for those two strings and for no
  other.
\<close>

theorem isTrustedDomain_iff:
  "isTrustedDomain d \<longleftrightarrow>
     specTrusted d \<or> stripWww (toLowerCase d) = ''edu'' \<or> stripWww (toLowerCase d) = ''gov''"
  unfolding isTrustedDomain_def specTrusted_def trustedDomains_def specAllowList_def Let_def
  by (simp only: list_ex_Nil_iff list_ex_Cons_iff append_Cons append_Nil) blast

theorem isTrustedDomain_iff_witness:
  "stripWww (toLowerCase ''WWW.Gov'') = ''gov'' \<and> isTrustedDomain ''WWW.Gov''"
proof -
  have h: "stripWww (toLowerCase ''WWW.Gov'') = ''gov''" by code_simp
  with isTrustedDomain_iff [of "''WWW.Gov''"] show ?thesis by blast
qed

text \<open>
  The claim as the specification states it fails at the string \<open>edu\<close>: it is trusted,
  and it is neither one of the ten entries nor a string with one of the suffixes.
\<close>

theorem bare_edu_trusted: "isTrustedDomain ''edu'' \<and> \<not> specTrusted ''edu''"
  by code_simp

section \<open>The PDF export\<close>

lemma posture_texts_distinct:
  "strongPostureText \<noteq> moderatePostureText"
  "strongPostureText \<noteq> weakPostureText"
  "moderatePostureText \<noteq> weakPostureText"
  "moderatePostureText \<noteq> strongPostureText"
  "weakPostureText \<noteq> strongPostureText"
  "weakPostureText \<noteq> moderatePostureText"
  by (simp_all add: strongPostureText_def moderatePostureText_def weakPostureText_def)

text \<open>
  Claim C2 (amended). The export chooses the risk-interpretation paragraph, and the rating
  label of the overview, by bands of its own: the strong (low-risk) text from a score of
  80, the moderate (medium-risk) text from 50 to 79, the weak (high-risk) text below 50.
\<close>

theorem riskInterpretation_bands:
  "(riskInterpretation r = strongPostureText \<longleftrightarrow> riskScore r \<ge> 80) \<and>
   (riskInterpretation r = moderatePostureText \<longleftrightarrow> 50 \<le> riskScore r \<and> riskScore r < 80) \<and>
   (riskInterpretation r = weakPostureText \<longleftrightarrow> riskScore r < 50) \<and>
   (ratingLabel r = ''Strong (Low Risk)'' \<longleftrightarrow> riskScore r \<ge> 80) \<and>
   (ratingLabel r = ''Moderate (Medium Risk)'' \<longleftrightarrow> 50 \<le> riskScore r \<and> riskScore r < 80) \<and>
   (ratingLabel r = ''Weak (High Risk)'' \<longleftrightarrow> riskScore r < 50)"
  by (simp add: riskInterpretation_def ratingLabel_def posture_texts_distinct)

theorem riskInterpretation_bands_witness:
  "riskScore (performSecurityAssessment ''2024-01-01T00:00:00.000Z'' ''e.com'') = 70 \<and>
   riskInterpretation (performSecurityAssessment ''2024-01-01T00:00:00.000Z'' ''e.com'') =
     moderatePostureText"
proof -
  have h: "riskScore (performSecurityAssessment ''2024-01-01T00:00:00.000Z'' ''e.com'') = 70"
    by code_simp
  with riskInterpretation_bands
         [of "performSecurityAssessment ''2024-01-01T00:00:00.000Z'' ''e.com''"]
  show ?thesis by simp
qed

text \<open>
  The claim as the specification states it fails for the report of \<open>e.com\<close>: its score is
  70 and the engine rates it Low, and the export prints the moderate paragraph, not the
  low-risk one.
\<close>

theorem pdf_band_differs_at_70:
  "riskScore (performSecurityAssessment ''2024-01-01T00:00:00.000Z'' ''e.com'') \<ge> 70 \<and>
   overallRisk (performSecurityAssessment ''2024-01-01T00:00:00.000Z'' ''e.com'') = Low \<and>
   riskInterpretation (performSecurityAssessment ''2024-01-01T00:00:00.000Z'' ''e.com'') \<noteq>
     strongPostureText"
proof -
  have h: "riskScore (performSecurityAssessment ''2024-01-01T00:00:00.000Z'' ''e.com'') = 70"
    by code_simp
  moreover have "overallRisk (performSecurityAssessment ''2024-01-01T00:00:00.000Z'' ''e.com'') = Low"
    by (simp add: report_overallRisk h)
  moreover have "riskInterpretation (performSecurityAssessment ''2024-01-01T00:00:00.000Z'' ''e.com'') \<noteq>
     strongPostureText"
    by (simp add: riskInterpretation_def h posture_texts_distinct)
  ultimately show ?thesis by simp
qed

end
